theory Spec2Isabelle
  imports Main "HOL-Library.Sublist"
begin

section \<open>The antivirus wrapper \<^verbatim>\<open>scripts/av_scan.sh\<close>\<close>

text \<open>
  The wrapper is a bash script run under \<^verbatim>\<open>set -euo pipefail\<close>. It reads its first
  positional parameter, tests it with \<^verbatim>\<open>-z\<close> and \<^verbatim>\<open>-f\<close>, asks \<^verbatim>\<open>uname -s\<close> for the host
  identifier and then runs \<^verbatim>\<open>clamscan\<close> or \<^verbatim>\<open>powershell.exe\<close>. Everything the script
  reads from its surroundings is a field of the environment below, the state of its own
  standard error included; what it produces is an exit status and the bytes it leaves
  on its two output streams.
\<close>

subsection \<open>Child processes and the environment\<close>

text \<open>
  A command that returns leaves an exit status (what \<^verbatim>\<open>$?\<close> reads, 0 to 255: 127 when
  the shell finds no such command, 128 plus the signal number when a signal killed the
  child), what it wrote on its standard output, and what reached standard error while
  it ran (its own messages and the shell's reports about it, if any: a command not
  found, a child killed by a signal, a NUL byte ignored in a command substitution). A
  command that never returns is \<open>None\<close>: the script has no timeout and waits for it.
\<close>

record proc =
  p_status :: nat
  p_stdout :: string
  p_stderr :: string

text \<open>
  File descriptor 2 of the script, where \<^verbatim>\<open>>&2\<close> sends a line. A write to it either
  succeeds or fails with an error: the descriptor is closed (\<^verbatim>\<open>2>&-\<close>), the device is
  full, or it is a pipe whose reader has gone while SIGPIPE is ignored. (With SIGPIPE
  at its default action such a pipe kills the shell at the write; a death by signal is
  not an exit of the script and is not described here.)
\<close>

datatype fd_state = Writable | Write_error

record env =
  arg0 :: string                         \<comment> \<open>\<^verbatim>\<open>$0\<close>, the name bash reports in its own messages\<close>
  argv :: "string list"                  \<comment> \<open>the positional parameters \<^verbatim>\<open>$1\<close>, \<^verbatim>\<open>$2\<close>, ...\<close>
  regular_file :: "string \<Rightarrow> bool"        \<comment> \<open>the test \<^verbatim>\<open>-f path\<close>\<close>
  uname_s :: "proc option"               \<comment> \<open>\<^verbatim>\<open>uname -s\<close>\<close>
  clamscan_on_path :: bool               \<comment> \<open>\<^verbatim>\<open>command -v clamscan\<close> succeeds\<close>
  clamscan :: "string \<Rightarrow> proc option"     \<comment> \<open>\<^verbatim>\<open>clamscan --no-summary path\<close>\<close>
  powershell :: "string \<Rightarrow> proc option"   \<comment> \<open>\<^verbatim>\<open>powershell.exe -NoProfile -Command text\<close>\<close>
  fd2 :: fd_state                        \<comment> \<open>the state of the script's standard error\<close>

subsection \<open>The shell: output streams, exit, and errexit\<close>

record sh =
  sout :: string   \<comment> \<open>bytes on the wrapper's standard output so far\<close>
  serr :: string   \<comment> \<open>bytes on the wrapper's standard error so far\<close>

text \<open>
  A command either ends the script with a status (\<open>Exit\<close>), never returns (\<open>Hang\<close>), or
  lets the script go on to the next command with a value (\<open>Next\<close>).
\<close>

datatype 'a res = Exit nat sh | Hang | Next 'a sh

definition then_do :: "'a res \<Rightarrow> ('a \<Rightarrow> sh \<Rightarrow> 'b res) \<Rightarrow> 'b res" where
  "then_do r f = (case r of Exit n s \<Rightarrow> Exit n s | Hang \<Rightarrow> Hang | Next x s \<Rightarrow> f x s)"

definition sh0 :: sh where
  "sh0 = \<lparr>sout = [], serr = []\<rparr>"

text \<open>
  \<^verbatim>\<open>set -e\<close>: a simple command (or an assignment from a command substitution) that
  returns a non-zero status ends the script at once with that status.
\<close>

definition errexit :: "nat \<Rightarrow> 'a \<Rightarrow> sh \<Rightarrow> 'a res" where
  "errexit st x s = (if st = 0 then Next x s else Exit st s)"

text \<open>
  \<^verbatim>\<open>echo msg >&2\<close> is a simple command like any other. When the write succeeds, the
  message and a newline are on standard error and \<^verbatim>\<open>echo\<close> returns 0; when the write
  fails, nothing is added, \<^verbatim>\<open>echo\<close> returns 1, and errexit ends the script with that
  status before the next command.
\<close>

definition echo_err :: "env \<Rightarrow> string \<Rightarrow> sh \<Rightarrow> unit res" where
  "echo_err e msg s =
     (case fd2 e of
        Writable \<Rightarrow> errexit 0 () (s\<lparr>serr := serr s @ msg @ [CHR 0x0A]\<rparr>)
      | Write_error \<Rightarrow> errexit 1 () s)"

text \<open>
  \<^verbatim>\<open>set -u\<close> at \<^verbatim>\<open>ARCHIVE="$1"\<close>: expanding \<^verbatim>\<open>$1\<close> when no positional parameter was
  given is an error; bash writes its own message (which is lost when standard error
  does not take it) and the script ends with status 1.
\<close>

definition param1 :: "env \<Rightarrow> sh \<Rightarrow> string res" where
  "param1 e s =
     (case argv e of
        [] \<Rightarrow>
          Exit 1
            (case fd2 e of
               Writable \<Rightarrow>
                 s\<lparr>serr := serr s @ arg0 e @ '': line 17: $1: unbound variable'' @ [CHR 0x0A]\<rparr>
             | Write_error \<Rightarrow> s)
      | a # _ \<Rightarrow> Next a s)"

text \<open>
  What a command substitution keeps of the output it captured: bash ignores the NUL
  bytes as it reads, and drops the trailing newlines of what is left.
\<close>

definition strip_nl :: "string \<Rightarrow> string" where
  "strip_nl out = rev (dropWhile (\<lambda>c. c = CHR 0x0A) (rev out))"

definition subst_text :: "string \<Rightarrow> string" where
  "subst_text out = strip_nl (filter (\<lambda>c. c \<noteq> CHR 0x00) out)"

subsection \<open>The script\<close>

text \<open>
  \<^verbatim>\<open>if [[ -z "${ARCHIVE}" || ! -f "${ARCHIVE}" ]]; then echo "[av_scan] invalid path: ${ARCHIVE}" >&2; exit 2; fi\<close>
\<close>

definition check_archive :: "env \<Rightarrow> string \<Rightarrow> sh \<Rightarrow> unit res" where
  "check_archive e ARCHIVE s =
     (if ARCHIVE = [] \<or> \<not> regular_file e ARCHIVE
      then then_do (echo_err e (''[av_scan] invalid path: '' @ ARCHIVE) s) (\<lambda>_. Exit 2)
      else Next () s)"

text \<open>
  \<^verbatim>\<open>OS="$(uname -s)"\<close>: the standard output of \<^verbatim>\<open>uname\<close> is captured, its standard error
  is the script's; the assignment has the status of the substitution.
\<close>

definition uname_subst :: "env \<Rightarrow> sh \<Rightarrow> string res" where
  "uname_subst e s =
     (case uname_s e of
        None \<Rightarrow> Hang
      | Some p \<Rightarrow> errexit (p_status p) (subst_text (p_stdout p)) (s\<lparr>serr := serr s @ p_stderr p\<rparr>))"

text \<open>
  \<^verbatim>\<open>clamscan --no-summary "${ARCHIVE}"\<close> as a simple command: both streams of the child
  are the script's. The value passed on is the status that \<^verbatim>\<open>EXIT_CODE=$?\<close> reads.
\<close>

definition clamscan_cmd :: "env \<Rightarrow> string \<Rightarrow> sh \<Rightarrow> nat res" where
  "clamscan_cmd e ARCHIVE s =
     (case clamscan e ARCHIVE of
        None \<Rightarrow> Hang
      | Some p \<Rightarrow>
          errexit (p_status p) (p_status p)
            (s\<lparr>sout := sout s @ p_stdout p, serr := serr s @ p_stderr p\<rparr>))"

text \<open>
  The message of the fallback holds an en dash, three bytes in UTF-8.
\<close>

definition not_found_msg :: string where
  "not_found_msg =
     ''[av_scan] clamscan not found '' @ [CHR 0xE2, CHR 0x80, CHR 0x93] @ '' skipping scan''"

text \<open>The body of the Linux / macOS block (it does not read \<^verbatim>\<open>OS\<close>).\<close>

definition posix_body :: "env \<Rightarrow> string \<Rightarrow> sh \<Rightarrow> unit res" where
  "posix_body e ARCHIVE s =
     (if \<not> clamscan_on_path e
      then then_do (echo_err e not_found_msg s) (\<lambda>_. Exit 0)
      else then_do (clamscan_cmd e ARCHIVE s) (\<lambda>EXIT_CODE s'.
             if EXIT_CODE = 0 then Exit 0 s'
             else if EXIT_CODE = 1 then Exit 1 s'
             else Exit 2 s'))"

text \<open>The test \<^verbatim>\<open>[[ "${OS}" == "Linux" || "${OS}" == "Darwin" ]]\<close>.\<close>

definition posix_id :: "string \<Rightarrow> bool" where
  "posix_id OS = (OS = ''Linux'' \<or> OS = ''Darwin'')"

text \<open>\<^verbatim>\<open>if [[ ... ]]; then ... fi\<close>: without an \<^verbatim>\<open>else\<close>, a false test goes on below.\<close>

definition posix_block :: "env \<Rightarrow> string \<Rightarrow> string \<Rightarrow> sh \<Rightarrow> unit res" where
  "posix_block e ARCHIVE OS s =
     (if posix_id OS then posix_body e ARCHIVE s else Next () s)"

text \<open>
  The text handed to \<^verbatim>\<open>powershell.exe -Command\<close>: the path between single quotes.
\<close>

definition mpscan_command :: "string \<Rightarrow> string" where
  "mpscan_command ARCHIVE =
     ''Start-MpScan -ScanPath '' @ [CHR 0x27] @ ARCHIVE @ [CHR 0x27] @ '' -ScanType CustomScan''"

text \<open>
  \<^verbatim>\<open>powershell.exe ... >/dev/null\<close> as a simple command: the child's standard output is
  discarded, its standard error is the script's.
\<close>

definition powershell_cmd :: "env \<Rightarrow> string \<Rightarrow> sh \<Rightarrow> unit res" where
  "powershell_cmd e ARCHIVE s =
     (case powershell e (mpscan_command ARCHIVE) of
        None \<Rightarrow> Hang
      | Some p \<Rightarrow> errexit (p_status p) () (s\<lparr>serr := serr s @ p_stderr p\<rparr>))"

text \<open>The body of the Windows block (it does not read \<^verbatim>\<open>OS\<close> either).\<close>

definition windows_body :: "env \<Rightarrow> string \<Rightarrow> sh \<Rightarrow> unit res" where
  "windows_body e ARCHIVE s = then_do (powershell_cmd e ARCHIVE s) (\<lambda>_. Exit 0)"

text \<open>
  The test \<^verbatim>\<open>[[ "${OS}" == "MINGW"* || "${OS}" == "CYGWIN"* || "${OS}" == "MSYS"* ]]\<close>:
  a quoted word followed by \<^verbatim>\<open>*\<close> matches the strings that start with the word.
\<close>

definition windows_id :: "string \<Rightarrow> bool" where
  "windows_id OS = (prefix ''MINGW'' OS \<or> prefix ''CYGWIN'' OS \<or> prefix ''MSYS'' OS)"

definition windows_block :: "env \<Rightarrow> string \<Rightarrow> string \<Rightarrow> sh \<Rightarrow> unit res" where
  "windows_block e ARCHIVE OS s =
     (if windows_id OS then windows_body e ARCHIVE s else Next () s)"

text \<open>\<^verbatim>\<open>echo "[av_scan] unsupported OS: ${OS}" >&2; exit 2\<close>\<close>

definition unsupported_os :: "env \<Rightarrow> string \<Rightarrow> sh \<Rightarrow> unit res" where
  "unsupported_os e OS s =
     then_do (echo_err e (''[av_scan] unsupported OS: '' @ OS) s) (\<lambda>_. Exit 2)"

text \<open>The three blocks in the order of the script, once \<^verbatim>\<open>OS\<close> is set.\<close>

definition dispatch :: "env \<Rightarrow> string \<Rightarrow> string \<Rightarrow> sh \<Rightarrow> unit res" where
  "dispatch e ARCHIVE OS s =
     then_do (posix_block e ARCHIVE OS s) (\<lambda>_ s1.
     then_do (windows_block e ARCHIVE OS s1) (\<lambda>_ s2.
     unsupported_os e OS s2))"

text \<open>The whole script, started with nothing written yet.\<close>

definition av_scan :: "env \<Rightarrow> unit res" where
  "av_scan e =
     then_do (param1 e sh0) (\<lambda>ARCHIVE s0.
     then_do (check_archive e ARCHIVE s0) (\<lambda>_ s1.
     then_do (uname_subst e s1) (\<lambda>OS s2.
     dispatch e ARCHIVE OS s2)))"

subsection \<open>What a caller observes\<close>

definition exit_code :: "'a res \<Rightarrow> nat option" where
  "exit_code r = (case r of Exit n _ \<Rightarrow> Some n | Hang \<Rightarrow> None | Next _ _ \<Rightarrow> None)"

definition err_stream :: "'a res \<Rightarrow> string option" where
  "err_stream r = (case r of Exit _ s \<Rightarrow> Some (serr s) | Hang \<Rightarrow> None | Next _ s \<Rightarrow> Some (serr s))"

subsection \<open>The platform families of the specification\<close>

text \<open>
  The specification describes the dispatch as a closed variant resolved once from the
  host identifier: two identifiers are the POSIX family, three prefixes are the Windows
  family, everything else is unsupported. This definition follows those words; the
  script itself is the cascade of \<open>posix_block\<close> and \<open>windows_block\<close> above.
\<close>

datatype platform = POSIX | WindowsLike | Unsupported

definition platform_of :: "string \<Rightarrow> platform" where
  "platform_of OS =
     (if OS \<in> {''Linux'', ''Darwin''} then POSIX
      else if \<exists>w \<in> {''MINGW'', ''CYGWIN'', ''MSYS''}. prefix w OS then WindowsLike
      else Unsupported)"

subsection \<open>Concrete hosts\<close>

text \<open>
  A host whose \<^verbatim>\<open>uname -s\<close> prints the given identifier, with one archive
  \<^verbatim>\<open>/tmp/archive.zip\<close> on disk and nothing else, one behaviour for whichever
  scanner command the script runs, and a standard error that takes what is written.
\<close>

definition exited :: "nat \<Rightarrow> proc option" where
  "exited n = Some \<lparr>p_status = n, p_stdout = [], p_stderr = []\<rparr>"

definition host :: "string \<Rightarrow> bool \<Rightarrow> proc option \<Rightarrow> string list \<Rightarrow> env" where
  "host os scanner child args =
     \<lparr>arg0 = ''./av_scan.sh'',
      argv = args,
      regular_file = (\<lambda>p. p = ''/tmp/archive.zip''),
      uname_s = Some \<lparr>p_status = 0, p_stdout = os @ [CHR 0x0A], p_stderr = []\<rparr>,
      clamscan_on_path = scanner,
      clamscan = (\<lambda>_. child),
      powershell = (\<lambda>_. child),
      fd2 = Writable\<rparr>"

section \<open>Properties\<close>

lemmas shell_defs =
  then_do_def echo_err_def errexit_def param1_def sh0_def

lemmas script_defs =
  av_scan_def check_archive_def uname_subst_def dispatch_def posix_block_def posix_body_def
  clamscan_cmd_def windows_block_def windows_body_def powershell_cmd_def unsupported_os_def

lemmas host_defs = host_def exited_def strip_nl_def subst_text_def posix_id_def windows_id_def

subsection \<open>The blocks of the dispatch\<close>

text \<open>
  Neither body reaches its closing \<^verbatim>\<open>fi\<close>: every path through it ends in an \<^verbatim>\<open>exit\<close>, in
  errexit, or waits for a child for ever.
\<close>

lemma posix_body_no_Next: "posix_body e a s \<noteq> Next x s'"
  by (auto simp: posix_body_def clamscan_cmd_def shell_defs
      split: option.splits fd_state.splits)

lemma windows_body_no_Next: "windows_body e a s \<noteq> Next x s'"
  by (auto simp: windows_body_def powershell_cmd_def shell_defs split: option.splits)

lemma posix_id_not_windows_id: "posix_id OS \<Longrightarrow> \<not> windows_id OS"
  by (auto simp: posix_id_def windows_id_def)

lemma dispatch_posix: "posix_id OS \<Longrightarrow> dispatch e a OS s = posix_body e a s"
  by (cases "posix_body e a s")
     (simp_all add: dispatch_def posix_block_def then_do_def posix_body_no_Next)

lemma dispatch_windows: "windows_id OS \<Longrightarrow> dispatch e a OS s = windows_body e a s"
  using posix_id_not_windows_id [of OS]
  by (cases "windows_body e a s")
     (auto simp: dispatch_def posix_block_def windows_block_def then_do_def windows_body_no_Next)

lemma dispatch_unsupported:
  "\<not> posix_id OS \<Longrightarrow> \<not> windows_id OS \<Longrightarrow> dispatch e a OS s = unsupported_os e OS s"
  by (simp add: dispatch_def posix_block_def windows_block_def then_do_def)

lemma platform_of_POSIX: "(platform_of OS = POSIX) = posix_id OS"
  by (simp add: platform_of_def posix_id_def)

lemma platform_of_WindowsLike: "(platform_of OS = WindowsLike) = windows_id OS"
  using posix_id_not_windows_id [of OS]
  by (auto simp: platform_of_def posix_id_def windows_id_def)

lemma platform_of_Unsupported:
  "(platform_of OS = Unsupported) = (\<not> posix_id OS \<and> \<not> windows_id OS)"
  by (auto simp: platform_of_def posix_id_def windows_id_def)

subsection \<open>The text a command substitution keeps\<close>

lemma subst_text_examples:
  "subst_text (''Linux'' @ [CHR 0x0A]) = ''Linux''"
  "subst_text (''Linux'' @ [CHR 0x00, CHR 0x0A]) = ''Linux''"
  "subst_text (''Linux'' @ [CHR 0x0A, CHR 0x00, CHR 0x0A]) = ''Linux''"
  "subst_text (''Li'' @ [CHR 0x00] @ ''nux'') = ''Linux''"
  by (simp_all add: subst_text_def strip_nl_def)

subsection \<open>The script on a path that passes or fails the first test\<close>

lemma invalid_path:
  assumes "argv e = a # rest" and "a = [] \<or> \<not> regular_file e a" and "fd2 e = Writable"
  shows "av_scan e = Exit 2 \<lparr>sout = [], serr = ''[av_scan] invalid path: '' @ a @ [CHR 0x0A]\<rparr>"
  using assms by (auto simp: av_scan_def check_archive_def shell_defs)

lemma invalid_path_write_error:
  assumes "argv e = a # rest" and "a = [] \<or> \<not> regular_file e a" and "fd2 e = Write_error"
  shows "av_scan e = Exit 1 sh0"
  using assms by (auto simp: av_scan_def check_archive_def shell_defs)

lemma valid_path:
  assumes "argv e = a # rest" and "a \<noteq> []" and "regular_file e a"
    and "uname_s e = Some u" and "p_status u = 0"
  shows "av_scan e = dispatch e a (subst_text (p_stdout u)) \<lparr>sout = [], serr = p_stderr u\<rparr>"
  using assms by (simp add: av_scan_def check_archive_def uname_subst_def shell_defs)

text \<open>
  With \<^verbatim>\<open>clamscan\<close> on the search path, the script ends with the status of \<^verbatim>\<open>clamscan\<close>,
  whatever it is: a non-zero status stops the script at the command itself, and the
  \<^verbatim>\<open>if\<close> / \<^verbatim>\<open>elif\<close> / \<^verbatim>\<open>else\<close> that follows only ever sees 0.
\<close>

lemma posix_with_scanner:
  assumes "argv e = a # rest" and "a \<noteq> []" and "regular_file e a"
    and "uname_s e = Some u" and "p_status u = 0" and "posix_id (subst_text (p_stdout u))"
    and "clamscan_on_path e" and "clamscan e a = Some c"
  shows "av_scan e = Exit (p_status c) \<lparr>sout = p_stdout c, serr = p_stderr u @ p_stderr c\<rparr>"
  using assms by (simp add: valid_path dispatch_posix posix_body_def clamscan_cmd_def shell_defs)

text \<open>
  The exit code of the script in closed form. The three places where the script writes
  a line of its own before it exits are the three places where the state of standard
  error decides between the intended code and the 1 of a failed \<^verbatim>\<open>echo\<close>.
\<close>

lemma exit_code_av_scan:
  "exit_code (av_scan e) =
     (case argv e of
        [] \<Rightarrow> Some 1
      | a # _ \<Rightarrow>
          if a = [] \<or> \<not> regular_file e a
          then (case fd2 e of Writable \<Rightarrow> Some 2 | Write_error \<Rightarrow> Some 1)
          else (case uname_s e of
                  None \<Rightarrow> None
                | Some u \<Rightarrow>
                    if p_status u \<noteq> 0 then Some (p_status u)
                    else if posix_id (subst_text (p_stdout u))
                      then (if clamscan_on_path e then map_option p_status (clamscan e a)
                            else (case fd2 e of Writable \<Rightarrow> Some 0 | Write_error \<Rightarrow> Some 1))
                    else if windows_id (subst_text (p_stdout u))
                      then map_option p_status (powershell e (mpscan_command a))
                    else (case fd2 e of Writable \<Rightarrow> Some 2 | Write_error \<Rightarrow> Some 1)))"
  using posix_id_not_windows_id
  by (auto simp: script_defs shell_defs exit_code_def
      split: list.splits option.splits fd_state.splits)

text \<open>
  The script ends whenever the commands it waits for return; it never runs past its
  last line.
\<close>

lemma av_scan_exits:
  assumes "uname_s e \<noteq> None" and "\<And>a. clamscan e a \<noteq> None"
    and "\<And>c. powershell e c \<noteq> None"
  shows "\<exists>n s. av_scan e = Exit n s"
proof -
  from assms have "exit_code (av_scan e) \<noteq> None"
    by (auto simp: exit_code_av_scan split: list.splits fd_state.splits)
  then show ?thesis
    by (cases "av_scan e") (simp_all add: exit_code_def)
qed

subsection \<open>The claims\<close>

text \<open>
  C1. On a POSIX host with \<^verbatim>\<open>clamscan\<close> on the search path the exit code is meant to
  follow the three-way mapping 0 to 0, 1 to 1, anything else to 2. The script does not
  do that for the third case: on a Linux host, with the archive present and \<^verbatim>\<open>clamscan\<close>
  returning status 40, errexit ends the script with status 40 before the mapping is
  reached.
\<close>

theorem clamscan_status_40_exits_40:
  "av_scan (host ''Linux'' True (exited 40) [''/tmp/archive.zip'']) = Exit 40 sh0"
  by (simp add: host_defs script_defs shell_defs)

text \<open>
  C2. An invocation whose path argument is missing, empty or not an existing regular file
  is meant to exit with code 2 and the wrapper's diagnostic, before any platform
  dispatch. For an empty or non-file argument that is \<open>invalid_path\<close> above, as long
  as standard error takes the diagnostic. With no
  argument at all the script never reaches its test: expanding \<^verbatim>\<open>$1\<close> under \<^verbatim>\<open>set -u\<close>
  ends it with status 1 and the shell's own message.
\<close>

theorem no_argument_exits_1:
  "av_scan (host ''Linux'' True (exited 0) []) =
     Exit 1 \<lparr>sout = [], serr = ''./av_scan.sh: line 17: $1: unbound variable'' @ [CHR 0x0A]\<rparr>"
  by (simp add: host_defs script_defs shell_defs)




text \<open>
  C4. On a Windows-family host, whenever the \<^verbatim>\<open>powershell.exe\<close> launch command returns
  status 0, the wrapper exits 0, whatever the command printed and whatever the engine
  finds later: nothing but the status of the launch is read. The standard output of
  the launch is discarded, its standard error passes through.
\<close>

theorem windows_launch_ok_exits_0:
  assumes "argv e = a # rest" and "a \<noteq> []" and "regular_file e a"
    and "uname_s e = Some u" and "p_status u = 0"
    and "windows_id (subst_text (p_stdout u))"
    and "powershell e (mpscan_command a) = Some p" and "p_status p = 0"
  shows "av_scan e = Exit 0 \<lparr>sout = [], serr = p_stderr u @ p_stderr p\<rparr>"
  using assms
  by (simp add: valid_path dispatch_windows windows_body_def powershell_cmd_def shell_defs)

theorem windows_launch_ok_exits_0_witness:
  "av_scan (host ''MINGW64_NT-10.0-19045'' False
      (Some \<lparr>p_status = 0, p_stdout = ''Threat detected'', p_stderr = []\<rparr>)
      [''/tmp/archive.zip'']) = Exit 0 sh0"
  using windows_launch_ok_exits_0 [of "host ''MINGW64_NT-10.0-19045'' False
      (Some \<lparr>p_status = 0, p_stdout = ''Threat detected'', p_stderr = []\<rparr>)
      [''/tmp/archive.zip'']"]
  by (simp add: host_defs sh0_def)




text \<open>
  C6. Every invocation is meant to end with an exit code in {0, 1, 2}, a non-standard
  scanner code and a scanner crash both becoming 2. The script passes the scanner's
  status through instead: with \<^verbatim>\<open>clamscan\<close> returning 50 the wrapper exits 50, and with
  \<^verbatim>\<open>clamscan\<close> killed by a segmentation fault (status 139) the wrapper exits 139.
\<close>

theorem scanner_status_passes_through:
  "exit_code (av_scan (host ''Linux'' True (exited 50) [''/tmp/archive.zip''])) = Some 50 \<and>
   exit_code (av_scan (host ''Darwin'' True (exited 139) [''/tmp/archive.zip''])) = Some 139"
  by (simp add: host_defs script_defs shell_defs exit_code_def)

text \<open>
  The claim that every failure except a missing scanner ends in exit code 2 together
  with a diagnostic line fails where the script means to answer 2: on a Linux host
  with the archive present and \<^verbatim>\<open>clamscan\<close> returning its error status 2 without
  writing anything, the wrapper exits 2 and its error stream is empty. The script has
  no \<^verbatim>\<open>echo\<close> for a scanner that fails.
\<close>

theorem clamscan_2_exits_2_silently:
  "exit_code (av_scan (host ''Linux'' True (exited 2) [''/tmp/archive.zip''])) = Some 2 \<and>
   err_stream (av_scan (host ''Linux'' True (exited 2) [''/tmp/archive.zip''])) = Some []"
  by (simp add: host_defs script_defs shell_defs exit_code_def err_stream_def)

text \<open>
  C7, as amended. Given a path argument and a standard error that takes the wrapper's
  lines: a path that is empty or names no regular file (InvalidInput) and an
  unsupported host (UnsupportedPlatform) end in exit code 2 with a diagnostic line
  written by the wrapper; a missing \<^verbatim>\<open>clamscan\<close> (ScannerUnavailable) is swallowed into
  exit code 0; a scanner invocation failure that \<^verbatim>\<open>clamscan\<close> reports with its error
  status 2 ends in exit code 2, but the wrapper adds no diagnostic line of its own: the
  error stream holds only what the child commands left there.
\<close>

theorem failure_outcomes:
  assumes "argv e = a # rest" and "fd2 e = Writable"
  shows
    "(a = [] \<or> \<not> regular_file e a \<longrightarrow>
        exit_code (av_scan e) = Some 2 \<and>
        err_stream (av_scan e) = Some (''[av_scan] invalid path: '' @ a @ [CHR 0x0A])) \<and>
     (a \<noteq> [] \<and> regular_file e a \<and> uname_s e = Some u \<and> p_status u = 0 \<longrightarrow>
        (\<not> posix_id (subst_text (p_stdout u)) \<and> \<not> windows_id (subst_text (p_stdout u)) \<longrightarrow>
           exit_code (av_scan e) = Some 2 \<and>
           err_stream (av_scan e) =
             Some (p_stderr u @ ''[av_scan] unsupported OS: '' @ subst_text (p_stdout u)
                   @ [CHR 0x0A])) \<and>
        (posix_id (subst_text (p_stdout u)) \<and> \<not> clamscan_on_path e \<longrightarrow>
           exit_code (av_scan e) = Some 0 \<and>
           err_stream (av_scan e) = Some (p_stderr u @ not_found_msg @ [CHR 0x0A])) \<and>
        (posix_id (subst_text (p_stdout u)) \<and> clamscan_on_path e \<and> clamscan e a = Some c \<and>
         p_status c = 2 \<longrightarrow>
           exit_code (av_scan e) = Some 2 \<and>
           err_stream (av_scan e) = Some (p_stderr u @ p_stderr c)))"
proof -
  have invalid: "exit_code (av_scan e) = Some 2 \<and>
      err_stream (av_scan e) = Some (''[av_scan] invalid path: '' @ a @ [CHR 0x0A])"
    if "a = [] \<or> \<not> regular_file e a"
    using invalid_path [OF assms(1) that assms(2)] by (simp add: exit_code_def err_stream_def)
  have valid: ?thesis if v: "a \<noteq> []" "regular_file e a"
  proof (cases "uname_s e = Some u \<and> p_status u = 0")
    case False
    with v show ?thesis by blast
  next
    case True
    note run = valid_path [OF assms(1) v, of u]
    from True v assms(2) show ?thesis
      using posix_id_not_windows_id [of "subst_text (p_stdout u)"]
      by (auto simp: run dispatch_posix dispatch_unsupported posix_body_def
          clamscan_cmd_def unsupported_os_def shell_defs exit_code_def err_stream_def)
  qed
  show ?thesis
  proof (cases "a = [] \<or> \<not> regular_file e a")
    case True
    with invalid show ?thesis by blast
  next
    case False
    with valid show ?thesis by blast
  qed
qed

theorem failure_outcomes_witness:
  "exit_code (av_scan (host ''Linux'' True (exited 0) [''/tmp/missing.zip''])) = Some 2 \<and>
   err_stream (av_scan (host ''Linux'' True (exited 0) [''/tmp/missing.zip''])) =
     Some (''[av_scan] invalid path: /tmp/missing.zip'' @ [CHR 0x0A]) \<and>
   exit_code (av_scan (host ''SunOS'' True (exited 0) [''/tmp/archive.zip''])) = Some 2 \<and>
   err_stream (av_scan (host ''SunOS'' True (exited 0) [''/tmp/archive.zip''])) =
     Some (''[av_scan] unsupported OS: SunOS'' @ [CHR 0x0A]) \<and>
   exit_code (av_scan (host ''Linux'' False None [''/tmp/archive.zip''])) = Some 0 \<and>
   err_stream (av_scan (host ''Linux'' False None [''/tmp/archive.zip''])) =
     Some (not_found_msg @ [CHR 0x0A]) \<and>
   exit_code (av_scan (host ''Darwin'' True
     (Some \<lparr>p_status = 2, p_stdout = [], p_stderr = ''ERROR: Can't open file''\<rparr>)
     [''/tmp/archive.zip''])) = Some 2 \<and>
   err_stream (av_scan (host ''Darwin'' True
     (Some \<lparr>p_status = 2, p_stdout = [], p_stderr = ''ERROR: Can't open file''\<rparr>)
     [''/tmp/archive.zip''])) = Some ''ERROR: Can't open file''"
  using
    failure_outcomes [of "host ''Linux'' True (exited 0) [''/tmp/missing.zip'']"
      "''/tmp/missing.zip''" "[]"
      "\<lparr>p_status = 0, p_stdout = ''Linux'' @ [CHR 0x0A], p_stderr = []\<rparr>"
      "\<lparr>p_status = 0, p_stdout = [], p_stderr = []\<rparr>"]
    failure_outcomes [of "host ''SunOS'' True (exited 0) [''/tmp/archive.zip'']"
      "''/tmp/archive.zip''" "[]"
      "\<lparr>p_status = 0, p_stdout = ''SunOS'' @ [CHR 0x0A], p_stderr = []\<rparr>"
      "\<lparr>p_status = 0, p_stdout = [], p_stderr = []\<rparr>"]
    failure_outcomes [of "host ''Linux'' False None [''/tmp/archive.zip'']"
      "''/tmp/archive.zip''" "[]"
      "\<lparr>p_status = 0, p_stdout = ''Linux'' @ [CHR 0x0A], p_stderr = []\<rparr>"
      "\<lparr>p_status = 0, p_stdout = [], p_stderr = []\<rparr>"]
    failure_outcomes [of "host ''Darwin'' True
        (Some \<lparr>p_status = 2, p_stdout = [], p_stderr = ''ERROR: Can't open file''\<rparr>)
        [''/tmp/archive.zip'']"
      "''/tmp/archive.zip''" "[]"
      "\<lparr>p_status = 0, p_stdout = ''Darwin'' @ [CHR 0x0A], p_stderr = []\<rparr>"
      "\<lparr>p_status = 2, p_stdout = [], p_stderr = ''ERROR: Can't open file''\<rparr>"]
  by (simp add: host_defs)

text \<open>
  C8. The dispatch is a closed, mutually exclusive classification of the host identifier:
  the cascade of the script runs the POSIX body exactly for Linux and Darwin, the
  Windows body exactly for the identifiers that start with MINGW, CYGWIN or MSYS, and
  the unsupported branch for every other identifier; it runs one of the three and no
  second one, and two identifiers of the same family get the same behaviour.
\<close>

theorem dispatch_closed:
  "dispatch e a OS s =
     (case platform_of OS of
        POSIX \<Rightarrow> posix_body e a s
      | WindowsLike \<Rightarrow> windows_body e a s
      | Unsupported \<Rightarrow> unsupported_os e OS s) \<and>
   (platform_of OS = POSIX) = (OS = ''Linux'' \<or> OS = ''Darwin'') \<and>
   (platform_of OS = WindowsLike) =
     (prefix ''MINGW'' OS \<or> prefix ''CYGWIN'' OS \<or> prefix ''MSYS'' OS) \<and>
   (platform_of OS = platform_of OS' \<and> platform_of OS \<noteq> Unsupported \<longrightarrow>
      dispatch e a OS s = dispatch e a OS' s)"
proof -
  have eq: "dispatch e a X s =
     (case platform_of X of
        POSIX \<Rightarrow> posix_body e a s
      | WindowsLike \<Rightarrow> windows_body e a s
      | Unsupported \<Rightarrow> unsupported_os e X s)" for X
  proof (cases "platform_of X")
    case POSIX
    with platform_of_POSIX [of X] show ?thesis by (simp add: dispatch_posix)
  next
    case WindowsLike
    with platform_of_WindowsLike [of X] show ?thesis by (simp add: dispatch_windows)
  next
    case Unsupported
    with platform_of_Unsupported [of X] show ?thesis by (simp add: dispatch_unsupported)
  qed
  have p: "(platform_of OS = POSIX) = (OS = ''Linux'' \<or> OS = ''Darwin'')"
    by (simp add: platform_of_POSIX posix_id_def)
  have w: "(platform_of OS = WindowsLike) =
     (prefix ''MINGW'' OS \<or> prefix ''CYGWIN'' OS \<or> prefix ''MSYS'' OS)"
    by (simp add: platform_of_WindowsLike windows_id_def)
  have same: "platform_of OS = platform_of OS' \<and> platform_of OS \<noteq> Unsupported \<longrightarrow>
      dispatch e a OS s = dispatch e a OS' s"
    by (cases "platform_of OS") (auto simp: eq [of OS] eq [of OS'])
  from eq [of OS] p w same show ?thesis by blast
qed

theorem dispatch_closed_witness:
  "dispatch (host ''Darwin'' False None []) ''/tmp/archive.zip'' ''Darwin'' sh0 =
     Exit 0 \<lparr>sout = [], serr = not_found_msg @ [CHR 0x0A]\<rparr> \<and>
   dispatch (host ''Darwin'' False None []) ''/tmp/archive.zip'' ''Linux'' sh0 =
     Exit 0 \<lparr>sout = [], serr = not_found_msg @ [CHR 0x0A]\<rparr> \<and>
   dispatch (host ''MSYS_NT-10.0'' False (exited 0) []) ''/tmp/archive.zip'' ''MSYS_NT-10.0'' sh0 =
     Exit 0 sh0 \<and>
   dispatch (host ''FreeBSD'' False None []) ''/tmp/archive.zip'' ''FreeBSD'' sh0 =
     Exit 2 \<lparr>sout = [], serr = ''[av_scan] unsupported OS: FreeBSD'' @ [CHR 0x0A]\<rparr>"
  using dispatch_closed [of "host ''Darwin'' False None []" "''/tmp/archive.zip''" "''Darwin''"
      sh0 "''Linux''"]
    dispatch_closed [of "host ''MSYS_NT-10.0'' False (exited 0) []" "''/tmp/archive.zip''"
      "''MSYS_NT-10.0''" sh0 "''MSYS_NT-10.0''"]
    dispatch_closed [of "host ''FreeBSD'' False None []" "''/tmp/archive.zip''" "''FreeBSD''"
      sh0 "''FreeBSD''"]
  by (simp add: platform_of_def host_defs script_defs not_found_msg_def shell_defs)







end
